theory Spec2Isabelle
  imports Complex_Main "HOL-Library.Word"
begin

unbundle bit_operations_syntax

section \<open>Machine types of the Go sources\<close>

text \<open>
  The packages \<open>pow\<close>, \<open>ratelimit\<close> and \<open>server\<close> are embedded function by function.
  Go's \<open>int\<close> and \<open>int64\<close> are 64-bit two's complement integers (the width of \<open>int\<close> on
  the 64-bit targets the service is built for): \<open>+\<close> wraps around, comparisons are signed.
  A \<open>byte\<close> is an 8-bit word, a Go \<open>string\<close> a list of bytes (\<open>char\<close>).
\<close>

type_synonym go_int = "64 word"
type_synonym int64 = "64 word"
type_synonym byte = "8 word"

section \<open>Package pow\<close>

subsection \<open>Decimal formatting (\<open>strconv.Itoa\<close>, the verb \<open>%d\<close>)\<close>

function decimal :: "nat \<Rightarrow> string" where
  "decimal n = (if n < 10 then [''0123456789'' ! n]
                else decimal (n div 10) @ [''0123456789'' ! (n mod 10)])"
  by pat_completeness auto
termination
  by (relation "measure id") auto

definition Itoa :: "go_int \<Rightarrow> string" where
  "Itoa i = (if sint i < 0 then ''-'' @ decimal (nat (- sint i)) else decimal (nat (sint i)))"

subsection \<open>Challenge and its canonical string\<close>

record Challenge =
  Ver :: string
  Alg :: string
  Bits :: go_int
  Ts :: int64
  ExpiresIn :: go_int
  Resource :: string
  Salt :: string

text \<open>\<open>fmt.Sprintf("%s:%s:%d:%d:%d:%s:%s", ...)\<close>\<close>

definition StringForHash :: "Challenge \<Rightarrow> string" where
  "StringForHash c =
     Ver c @ '':'' @ Alg c @ '':'' @ Itoa (Bits c) @ '':'' @ Itoa (Ts c) @ '':'' @
     Itoa (ExpiresIn c) @ '':'' @ Resource c @ '':'' @ Salt c"

subsection \<open>LeadingZeroBits\<close>

text \<open>
  The inner loop \<open>for i := 7; i >= 0; i--\<close> over one non-zero byte: \<open>bit_loop b n count\<close>
  has \<open>n\<close> iterations left, the next one testing \<open>b & (1 << (n - 1))\<close>. When the loop
  runs out, the source returns \<open>count\<close> as well.
\<close>

fun bit_loop :: "byte \<Rightarrow> nat \<Rightarrow> go_int \<Rightarrow> go_int" where
  "bit_loop b 0 count = count"
| "bit_loop b (Suc i) count =
     (if b AND push_bit i 1 = 0 then bit_loop b i (count + 1) else count)"

text \<open>The outer loop \<open>for _, b := range hash\<close>, with the running \<open>count\<close>.\<close>

fun byte_loop :: "byte list \<Rightarrow> go_int \<Rightarrow> go_int" where
  "byte_loop [] count = count"
| "byte_loop (b # hash) count =
     (if b = 0 then byte_loop hash (count + 8) else bit_loop b 8 count)"

definition LeadingZeroBits :: "byte list \<Rightarrow> go_int" where
  "LeadingZeroBits hash = byte_loop hash 0"

subsection \<open>Solve\<close>




subsection \<open>Verify\<close>

text \<open>
  The four \<open>fmt.Errorf\<close> results of \<open>Verify\<close>, each with the values its message prints.
  \<open>time.Now().Unix()\<close> is the parameter \<open>now\<close>; \<open>Inr ()\<close> is the \<open>nil\<close> error.
\<close>

datatype verify_error =
    ResourceMismatch string string
  | NotYetValid int64 int64
  | Expired int64 int64 go_int
  | InsufficientPoW go_int go_int

definition Verify :: "(string \<Rightarrow> byte list) \<Rightarrow> Challenge \<Rightarrow> string \<Rightarrow> string \<Rightarrow> int64
    \<Rightarrow> verify_error + unit" where
  "Verify H c solution resource now =
     (if Resource c \<noteq> resource then Inl (ResourceMismatch resource (Resource c))
      else if now <s Ts c then Inl (NotYetValid (Ts c) now)
      else if Ts c + ExpiresIn c <s now then Inl (Expired (Ts c) now (ExpiresIn c))
      else
        (let challengeStr = StringForHash c;
             input = challengeStr @ '':'' @ solution;
             hash = H input;
             actualBits = LeadingZeroBits hash
         in if actualBits <s Bits c then Inl (InsufficientPoW (Bits c) actualBits)
            else Inr ()))"

subsection \<open>Generate\<close>

text \<open>
  \<open>crypto/rand.Read\<close> is the parameter \<open>rand\<close>: asked for \<open>n\<close> bytes it fails (\<open>None\<close>)
  or fills the buffer. \<open>hex.EncodeToString\<close> writes two lower-case digits per byte.
  \<open>time.Now().Unix()\<close> is the parameter \<open>now\<close>. \<open>None\<close> is the error return.
\<close>

definition hex_EncodeToString :: "byte list \<Rightarrow> string" where
  "hex_EncodeToString src =
     concat (map (\<lambda>v. [''0123456789abcdef'' ! (unat v div 16),
                          ''0123456789abcdef'' ! (unat v mod 16)]) src)"

definition generateSalt :: "(nat \<Rightarrow> byte list option) \<Rightarrow> nat \<Rightarrow> string option" where
  "generateSalt rand byteLen =
     (case rand byteLen of None \<Rightarrow> None | Some b \<Rightarrow> Some (hex_EncodeToString b))"

definition Generate :: "(nat \<Rightarrow> byte list option) \<Rightarrow> int64 \<Rightarrow> go_int \<Rightarrow> go_int \<Rightarrow> string
    \<Rightarrow> Challenge option" where
  "Generate rand now bits expiresIn resource =
     (case generateSalt rand 16 of
        None \<Rightarrow> None
      | Some salt \<Rightarrow>
          Some \<lparr>Ver = ''1'', Alg = ''sha256'', Bits = bits, Ts = now,
                ExpiresIn = expiresIn, Resource = resource, Salt = salt\<rparr>)"

section \<open>Package ratelimit\<close>

text \<open>
  A \<open>net.IP\<close> is a byte slice; \<open>None\<close> is the \<open>nil\<close> slice. \<open>ip.String()\<close> comes from the
  standard library and is the parameter \<open>String\<close> of \<open>Allow\<close> and \<open>Reset\<close>.

  A \<open>time.Time\<close> is an instant counted in nanoseconds; \<open>Sub\<close> yields a \<open>Duration\<close>
  (an \<open>int64\<close> of nanoseconds) and saturates at the largest and smallest duration, as
  \<open>time.Time.Sub\<close> does. \<open>time.Now()\<close> is the parameter \<open>now\<close> of \<open>Allow\<close>.

  \<open>float64\<close> values are idealised as real numbers: the conversions and the arithmetic
  on \<open>tokens\<close> are exact here, rounding is not modelled. The conversion of an \<open>int\<close> is
  exact in Go as well up to a magnitude of \<open>2^53\<close>.
\<close>

type_synonym IP = "byte list"
type_synonym Time = int
type_synonym Duration = "64 word"

definition Sub :: "Time \<Rightarrow> Time \<Rightarrow> Duration" where
  "Sub t u =
     (let d = t - u
      in if 2 ^ 63 - 1 < d then word_of_int (2 ^ 63 - 1)
         else if d < - (2 ^ 63) then word_of_int (- (2 ^ 63))
         else word_of_int d)"

definition Seconds :: "Duration \<Rightarrow> real" where
  "Seconds d = real_of_int (sint d) / 1000000000"

definition float64 :: "go_int \<Rightarrow> real" where
  "float64 i = real_of_int (sint i)"

definition Minute :: Duration where
  "Minute = 60 * 1000000000"

record bucket =
  tokens :: real
  lastCheck :: Time
  attempts :: go_int

record Limiter =
  buckets :: "string \<rightharpoonup> bucket"
  rate :: go_int
  capacity :: go_int
  cleanup :: Duration

text \<open>The goroutine \<open>cleanupLoop\<close> that \<open>NewLimiter\<close> starts is \<open>cleanup_tick\<close> below.\<close>

definition NewLimiter :: "go_int \<Rightarrow> go_int \<Rightarrow> Limiter" where
  "NewLimiter r c = \<lparr>buckets = Map.empty, rate = r, capacity = c, cleanup = 5 * Minute\<rparr>"

text \<open>
  \<open>Allow\<close> returns the pair \<open>(allowed, attempts)\<close> and the limiter after the call. The
  mutex makes the body atomic, so one call is one state transition.
\<close>

definition Allow :: "(IP \<Rightarrow> string) \<Rightarrow> Limiter \<Rightarrow> Time \<Rightarrow> IP option
    \<Rightarrow> (bool \<times> go_int) \<times> Limiter" where
  "Allow String l now ip =
     (case ip of
        None \<Rightarrow> ((True, 0), l)
      | Some a \<Rightarrow>
          (let key = String a;
               b = (case buckets l key of
                      None \<Rightarrow> \<lparr>tokens = float64 (capacity l), lastCheck = now, attempts = 0\<rparr>
                    | Some b \<Rightarrow> b);
               elapsed = Seconds (Sub now (lastCheck b));
               b = b\<lparr>tokens := tokens b + elapsed * float64 (rate l)\<rparr>;
               b = (if float64 (capacity l) < tokens b
                    then b\<lparr>tokens := float64 (capacity l)\<rparr> else b);
               b = b\<lparr>lastCheck := now\<rparr>
           in if 1 \<le> tokens b then
                (let b = b\<lparr>tokens := tokens b - 1\<rparr>;
                     b = b\<lparr>attempts := attempts b + 1\<rparr>
                 in ((True, attempts b), l\<lparr>buckets := (buckets l)(key \<mapsto> b)\<rparr>))
              else
                (let b = b\<lparr>attempts := attempts b + 1\<rparr>
                 in ((False, attempts b), l\<lparr>buckets := (buckets l)(key \<mapsto> b)\<rparr>))))"

definition Reset :: "(IP \<Rightarrow> string) \<Rightarrow> Limiter \<Rightarrow> IP option \<Rightarrow> Limiter" where
  "Reset String l ip =
     (case ip of
        None \<Rightarrow> l
      | Some a \<Rightarrow> (let key = String a in l\<lparr>buckets := (buckets l)(key := None)\<rparr>))"


definition AdaptiveDifficulty :: "go_int \<Rightarrow> go_int \<Rightarrow> go_int" where
  "AdaptiveDifficulty baseBits n =
     (if n \<le>s 2 then baseBits
      else if n \<le>s 5 then baseBits + 1
      else if n \<le>s 10 then baseBits + 2
      else if n \<le>s 20 then baseBits + 3
      else baseBits + 4)"

subsection \<open>Histories of limiter calls\<close>




section \<open>Package server\<close>

text \<open>
  \<open>Config\<close> has fields \<open>Bits\<close> and \<open>ExpiresIn\<close> like \<open>Challenge\<close>; here they are
  \<open>Bits_cfg\<close> and \<open>ExpiresIn_cfg\<close>.
\<close>

record Config =
  Addr :: string
  Bits_cfg :: go_int
  ExpiresIn_cfg :: go_int
  RateLimit :: go_int
  AdaptiveBits :: bool

record SolutionMessage =
  Type :: string
  Nonce :: string

text \<open>
  The messages the handler writes. The constructor stands for the \<open>type\<close> tag; the text
  of an error message is one of six: "rate limit exceeded, please try again later",
  "internal server error", "invalid solution format", "expected solution message",
  "invalid solution: " followed by the error of \<open>Verify\<close>, "failed to generate quote".
\<close>

datatype error_text =
    RateLimitExceeded
  | InternalServerError
  | InvalidSolutionFormat
  | ExpectedSolutionMessage
  | InvalidSolution verify_error
  | FailedToGenerateQuote

datatype server_message =
    ChallengeMessage Challenge
  | QuoteMessage string
  | ErrorMessage error_text

text \<open>
  What one connection meets outside the handler: the peer's address after the type
  assertion to \<open>*net.TCPAddr\<close> (\<open>None\<close> when \<open>clientIP\<close> stays \<open>nil\<close>), the clock as
  \<open>Allow\<close>, \<open>Generate\<close> and \<open>Verify\<close> read it, the entropy source, whether \<open>SetDeadline\<close> and the writes
  succeed, what \<open>ReceiveJSON\<close> decodes (\<open>None\<close> for an error), and the result of
  \<open>quotes.Random\<close> (\<open>None\<close> for an error).
\<close>

record conn_env =
  clientIP :: "IP option"
  allow_now :: Time
  SetDeadline_ok :: bool
  rand_Read :: "nat \<Rightarrow> byte list option"
  generate_now :: int64
  send_challenge_ok :: bool
  ReceiveJSON_result :: "SolutionMessage option"
  verify_now :: int64
  quotes_Random :: "string option"

text \<open>
  The rate check at the head of \<open>handleConnection\<close>: \<open>(allowed, attempts, limiter)\<close>.
  Without a limiter or an address, \<open>attempts\<close> keeps its zero value.
\<close>

definition rate_check :: "(IP \<Rightarrow> string) \<Rightarrow> Limiter option \<Rightarrow> conn_env
    \<Rightarrow> bool \<times> go_int \<times> Limiter option" where
  "rate_check String limiter env =
     (case (limiter, clientIP env) of
        (Some l, Some ip) \<Rightarrow>
          (case Allow String l (allow_now env) (Some ip) of
             ((allowed, attemptCount), l') \<Rightarrow> (allowed, attemptCount, Some l'))
      | _ \<Rightarrow> (True, 0, limiter))"

text \<open>
  \<open>handleConnection\<close> returns the messages handed to \<open>SendJSON\<close> and \<open>SendError\<close>, in
  order, and the limiter after the connection. A failed write of the challenge ends the
  handler; the results of the other writes change nothing but the log.
\<close>

definition handleConnection :: "(string \<Rightarrow> byte list) \<Rightarrow> (IP \<Rightarrow> string) \<Rightarrow> Config
    \<Rightarrow> Limiter option \<Rightarrow> conn_env \<Rightarrow> server_message list \<times> Limiter option" where
  "handleConnection H String cfg limiter env =
     (case rate_check String limiter env of
        (allowed, n, limiter) \<Rightarrow>
          if \<not> allowed then ([ErrorMessage RateLimitExceeded], limiter)
          else if \<not> SetDeadline_ok env then ([], limiter)
          else
            (let bits = (if AdaptiveBits cfg \<and> 0 <s n
                         then AdaptiveDifficulty (Bits_cfg cfg) n else Bits_cfg cfg)
             in case Generate (rand_Read env) (generate_now env) bits (ExpiresIn_cfg cfg) ''quote'' of
                  None \<Rightarrow> ([ErrorMessage InternalServerError], limiter)
                | Some challenge \<Rightarrow>
                    if \<not> send_challenge_ok env then ([ChallengeMessage challenge], limiter)
                    else
                      (case ReceiveJSON_result env of
                         None \<Rightarrow>
                           ([ChallengeMessage challenge, ErrorMessage InvalidSolutionFormat],
                            limiter)
                       | Some solutionMsg \<Rightarrow>
                           if Type solutionMsg \<noteq> ''solution'' then
                             ([ChallengeMessage challenge, ErrorMessage ExpectedSolutionMessage],
                              limiter)
                           else
                             (case Verify H challenge (Nonce solutionMsg) ''quote''
                                     (verify_now env) of
                                Inl err \<Rightarrow>
                                  ([ChallengeMessage challenge,
                                    ErrorMessage (InvalidSolution err)], limiter)
                              | Inr _ \<Rightarrow>
                                  (let limiter =
                                         (case (limiter, clientIP env) of
                                            (Some l, Some ip) \<Rightarrow> Some (Reset String l (Some ip))
                                          | _ \<Rightarrow> limiter)
                                   in case quotes_Random env of
                                        None \<Rightarrow>
                                          ([ChallengeMessage challenge,
                                            ErrorMessage FailedToGenerateQuote], limiter)
                                      | Some quote \<Rightarrow>
                                          ([ChallengeMessage challenge, QuoteMessage quote],
                                           limiter))))))"

text \<open>The difficulty of every challenge among the messages, and the errors of \<open>Verify\<close>.\<close>

fun sent_bits :: "server_message list \<Rightarrow> go_int list" where
  "sent_bits [] = []"
| "sent_bits (ChallengeMessage c # ms) = Bits c # sent_bits ms"
| "sent_bits (m # ms) = sent_bits ms"

fun sent_verify_errors :: "server_message list \<Rightarrow> verify_error list" where
  "sent_verify_errors [] = []"
| "sent_verify_errors (ErrorMessage (InvalidSolution e) # ms) = e # sent_verify_errors ms"
| "sent_verify_errors (m # ms) = sent_verify_errors ms"

fun is_temporal :: "verify_error \<Rightarrow> bool" where
  "is_temporal (NotYetValid ts now) = True"
| "is_temporal (Expired ts now ex) = True"
| "is_temporal e = False"

fun is_insufficient :: "verify_error \<Rightarrow> bool" where
  "is_insufficient (InsufficientPoW want got) = True"
| "is_insufficient e = False"

fun is_mismatch :: "verify_error \<Rightarrow> bool" where
  "is_mismatch (ResourceMismatch want got) = True"
| "is_mismatch e = False"

section \<open>Leading zero bits, as the specification counts them\<close>

text \<open>
  The bits of a digest from the most significant bit of the first byte on, and the
  length of the run of zero bits at its head.
\<close>

definition byte_bits :: "byte \<Rightarrow> bool list" where
  "byte_bits b = [bit b 7, bit b 6, bit b 5, bit b 4, bit b 3, bit b 2, bit b 1, bit b 0]"

definition bits_msb_first :: "byte list \<Rightarrow> bool list" where
  "bits_msb_first D = concat (map byte_bits D)"

definition zero_run :: "bool list \<Rightarrow> nat" where
  "zero_run bs = length (takeWhile (\<lambda>x. \<not> x) bs)"

section \<open>The token bucket, as the specification describes it\<close>





text \<open>The extra bits of the specification's table, by attempt count.\<close>

definition extra_bits :: "go_int \<Rightarrow> go_int" where
  "extra_bits n =
     (if n \<le>s 2 then 0 else if n \<le>s 5 then 1 else if n \<le>s 10 then 2
      else if n \<le>s 20 then 3 else 4)"

section \<open>Sample inputs\<close>

text \<open>
  A digest function for running the engine on small inputs: inputs ending in the digit 2
  get a digest with 15 leading zero bits, all others one with none.
\<close>

definition sample_digest :: "string \<Rightarrow> byte list" where
  "sample_digest s = (if s \<noteq> [] \<and> last s = CHR ''2'' then [0, 1] else [128])"

definition sample_challenge :: Challenge where
  "sample_challenge =
     \<lparr>Ver = ''1'', Alg = ''sha256'', Bits = 10, Ts = 1000, ExpiresIn = 60,
      Resource = ''quote'', Salt = ''ab''\<rparr>"

definition sample_String :: "IP \<Rightarrow> string" where
  "sample_String a = hex_EncodeToString a"

definition sample_cfg :: Config where
  "sample_cfg =
     \<lparr>Addr = '':8080'', Bits_cfg = 20, ExpiresIn_cfg = 60, RateLimit = 10,
      AdaptiveBits = True\<rparr>"

definition sample_env :: conn_env where
  "sample_env =
     \<lparr>clientIP = Some [127, 0, 0, 1], allow_now = 0, SetDeadline_ok = True,
      rand_Read = (\<lambda>n. Some (replicate n 10)), generate_now = 1000,
      send_challenge_ok = True,
      ReceiveJSON_result = Some \<lparr>Type = ''solution'', Nonce = ''0''\<rparr>,
      verify_now = 1001, quotes_Random = Some ''wisdom''\<rparr>"

text \<open>
  A challenge whose window ends before it starts, and one whose window end
  \<open>Ts + ExpiresIn\<close> wraps around.
\<close>

definition backdated_challenge :: Challenge where
  "backdated_challenge = sample_challenge\<lparr>Ts := 100, ExpiresIn := - 50\<rparr>"

definition wrapping_challenge :: Challenge where
  "wrapping_challenge = sample_challenge\<lparr>Ts := 9223372036854775807, ExpiresIn := 60\<rparr>"

text \<open>
  Limiters that have seen the address 127.0.0.1 before: one with a quarter of a token
  left after 25 attempts, one with five tokens left after 6 attempts.
\<close>

definition drained_limiter :: Limiter where
  "drained_limiter =
     (NewLimiter 10 20)\<lparr>buckets :=
        [''7f000001'' \<mapsto> \<lparr>tokens = 1 / 4, lastCheck = 0, attempts = 25\<rparr>]\<rparr>"

definition busy_limiter :: Limiter where
  "busy_limiter =
     (NewLimiter 10 20)\<lparr>buckets :=
        [''7f000001'' \<mapsto> \<lparr>tokens = 5, lastCheck = 0, attempts = 6\<rparr>]\<rparr>"


section \<open>Properties of the proof-of-work engine\<close>

subsection \<open>LeadingZeroBits counts the run of zero bits\<close>

lemma byte_bits_upt: "byte_bits b = map (bit b) (rev [0..<8])"
  by (simp add: byte_bits_def upt_rec eval_nat_numeral)

lemma bit_loop_run:
  "bit_loop b n count = count + of_nat (zero_run (map (bit b) (rev [0..<n])))"
  by (induction n arbitrary: count) (simp_all add: zero_run_def and_exp_eq_0_iff_not_bit)

lemma zero_run_zero_byte: "zero_run (byte_bits 0 @ bs) = 8 + zero_run bs"
  by (simp add: byte_bits_def zero_run_def)

lemma nonzero_byte_has_bit:
  fixes b :: byte
  assumes "b \<noteq> 0"
  shows "True \<in> set (byte_bits b)"
proof -
  from assms obtain i where "bit b i"
    by (auto simp: bit_eq_iff)
  moreover from this have "i < 8"
    using bit_imp_le_length [of b i] by simp
  ultimately have "bit b i \<and> i \<in> set (rev [0..<8])"
    by simp
  then show ?thesis
    unfolding byte_bits_upt by force
qed

lemma zero_run_nonzero_byte:
  "b \<noteq> 0 \<Longrightarrow> zero_run (byte_bits b @ bs) = zero_run (byte_bits b)"
  using nonzero_byte_has_bit [of b]
  by (simp add: zero_run_def takeWhile_append1 [of True])

lemma byte_loop_run:
  "byte_loop D count = count + of_nat (zero_run (bits_msb_first D))"
proof (induction D arbitrary: count)
  case Nil
  show ?case
    by (simp add: bits_msb_first_def zero_run_def)
next
  case (Cons b D)
  show ?case
  proof (cases "b = 0")
    case True
    then show ?thesis
      using Cons.IH [of "count + 8"]
      by (simp add: bits_msb_first_def zero_run_zero_byte)
  next
    case False
    then show ?thesis
      by (simp add: bits_msb_first_def zero_run_nonzero_byte bit_loop_run
          byte_bits_upt [symmetric])
  qed
qed

lemma zero_run_le: "zero_run (bits_msb_first D) \<le> 8 * length D"
proof -
  have "zero_run (bits_msb_first D) \<le> length (bits_msb_first D)"
    by (simp add: zero_run_def length_takeWhile_le)
  also have "length (bits_msb_first D) = 8 * length D"
    by (induction D) (simp_all add: bits_msb_first_def byte_bits_def)
  finally show ?thesis .
qed

lemma zero_run_all_zero:
  "\<forall>b\<in>set D. b = 0 \<Longrightarrow> zero_run (bits_msb_first D) = 8 * length D"
  by (induction D) (simp_all add: bits_msb_first_def zero_run_zero_byte, simp add: zero_run_def)

text \<open>
  Claim C5. For every byte sequence \<open>D\<close>, \<open>LeadingZeroBits D\<close> is the length of the run
  of zero bits from the most significant bit of the first byte up to the first one bit,
  and it is \<open>8 * len(D)\<close> when every byte of \<open>D\<close> is zero. The result is a Go \<open>int\<close>; as
  long as \<open>8 * len(D)\<close> fits one, its value is the length of the run as a number.
\<close>

theorem LeadingZeroBits_counts_zero_run:
  "LeadingZeroBits D = of_nat (zero_run (bits_msb_first D)) \<and>
   (8 * length D < 2 ^ 63 \<longrightarrow> sint (LeadingZeroBits D) = int (zero_run (bits_msb_first D))) \<and>
   ((\<forall>b\<in>set D. b = 0) \<longrightarrow> LeadingZeroBits D = 8 * of_nat (length D))"
proof (intro conjI impI)
  show eq: "LeadingZeroBits D = of_nat (zero_run (bits_msb_first D))"
    by (simp add: LeadingZeroBits_def byte_loop_run)
  show "sint (LeadingZeroBits D) = int (zero_run (bits_msb_first D))" if "8 * length D < 2 ^ 63"
  proof -
    have "zero_run (bits_msb_first D) < 2 ^ 63"
      using zero_run_le [of D] that by linarith
    then show ?thesis
      unfolding eq by (simp add: signed_of_nat signed_take_bit_int_eq_self)
  qed
  show "LeadingZeroBits D = 8 * of_nat (length D)" if "\<forall>b\<in>set D. b = 0"
    unfolding eq using zero_run_all_zero [OF that] by simp
qed

theorem LeadingZeroBits_counts_zero_run_witness:
  "set [0, 0 :: byte] = {0} \<and> 8 * length [0, 0 :: byte] < 2 ^ 63 \<and>
   LeadingZeroBits [0, 0] = 16 \<and> sint (LeadingZeroBits [0, 0]) = 16 \<and>
   zero_run (bits_msb_first [0, 0]) = 16"
proof -
  have run: "zero_run (bits_msb_first [0, 0]) = 16"
    by (simp add: zero_run_def bits_msb_first_def byte_bits_def)
  have zero: "\<forall>b\<in>set [0, 0 :: byte]. b = 0" and small: "8 * length [0, 0 :: byte] < 2 ^ 63"
    by simp_all
  from LeadingZeroBits_counts_zero_run [of "[0, 0]"] zero small run show ?thesis
    by simp
qed

subsection \<open>A nonce found by Solve passes Verify\<close>




subsection \<open>The order of the checks in Verify\<close>

lemma sint_add_no_overflow:
  fixes a b :: "64 word"
  assumes "- (2 ^ 63) \<le> sint a + sint b" and "sint a + sint b < 2 ^ 63"
  shows "sint (a + b) = sint a + sint b"
  using assms by (simp add: sint_word_add signed_take_bit_int_eq_self)

text \<open>
  Claim C6, as amended. \<open>Verify\<close> returns the resource-mismatch error whenever
  \<open>C.resource != expectedResource\<close>, whatever the nonce and the time. When the resource
  matches it returns the not-yet-valid error whenever \<open>now < C.ts\<close>, whatever the nonce,
  and the expiration error whenever \<open>now > C.ts + C.expiresIn\<close> and not \<open>now < C.ts\<close>: the
  not-yet-valid check runs first. For a challenge with \<open>expiresIn >= 0\<close> whose window end
  does not overflow \<open>int64\<close>, \<open>now > C.ts + C.expiresIn\<close> alone gives the expiration error.
\<close>

theorem Verify_error_order:
  "(Resource c \<noteq> r \<longrightarrow> Verify H c n r now = Inl (ResourceMismatch r (Resource c))) \<and>
   (Resource c = r \<and> now <s Ts c \<longrightarrow> Verify H c n r now = Inl (NotYetValid (Ts c) now)) \<and>
   (Resource c = r \<and> \<not> now <s Ts c \<and> Ts c + ExpiresIn c <s now \<longrightarrow>
      Verify H c n r now = Inl (Expired (Ts c) now (ExpiresIn c))) \<and>
   (Resource c = r \<and> 0 \<le>s ExpiresIn c \<and> sint (Ts c) + sint (ExpiresIn c) < 2 ^ 63 \<and>
      Ts c + ExpiresIn c <s now \<longrightarrow>
      Verify H c n r now = Inl (Expired (Ts c) now (ExpiresIn c)))"
proof (intro conjI impI)
  show "Verify H c n r now = Inl (ResourceMismatch r (Resource c))" if "Resource c \<noteq> r"
    using that by (simp add: Verify_def)
  show "Verify H c n r now = Inl (NotYetValid (Ts c) now)" if "Resource c = r \<and> now <s Ts c"
    using that by (simp add: Verify_def)
  show "Verify H c n r now = Inl (Expired (Ts c) now (ExpiresIn c))"
    if "Resource c = r \<and> \<not> now <s Ts c \<and> Ts c + ExpiresIn c <s now"
    using that by (simp add: Verify_def)
  show "Verify H c n r now = Inl (Expired (Ts c) now (ExpiresIn c))"
    if h: "Resource c = r \<and> 0 \<le>s ExpiresIn c \<and> sint (Ts c) + sint (ExpiresIn c) < 2 ^ 63 \<and>
      Ts c + ExpiresIn c <s now"
  proof -
    from h have nonneg: "0 \<le> sint (ExpiresIn c)"
      by (simp add: word_sle_eq)
    have "- (2 ^ 63) \<le> sint (Ts c)"
      using sint_ge [of "Ts c"] by simp
    with nonneg h have "sint (Ts c + ExpiresIn c) = sint (Ts c) + sint (ExpiresIn c)"
      by (intro sint_add_no_overflow) simp_all
    with nonneg h have "\<not> now <s Ts c"
      by (simp add: word_sless_alt)
    with h show ?thesis
      by (simp add: Verify_def)
  qed
qed

theorem Verify_error_order_witness:
  "Verify sample_digest sample_challenge ''2'' ''other'' 1030
     = Inl (ResourceMismatch ''other'' ''quote'') \<and>
   Verify sample_digest sample_challenge ''2'' ''quote'' 999 = Inl (NotYetValid 1000 999) \<and>
   Verify sample_digest sample_challenge ''2'' ''quote'' 1061 = Inl (Expired 1000 1061 60)"
proof -
  have "Resource sample_challenge \<noteq> ''other''"
    by (simp add: sample_challenge_def)
  moreover have "Resource sample_challenge = ''quote'' \<and> 999 <s Ts sample_challenge"
    by (simp add: sample_challenge_def)
  moreover have "Resource sample_challenge = ''quote'' \<and> \<not> 1061 <s Ts sample_challenge \<and>
      Ts sample_challenge + ExpiresIn sample_challenge <s 1061"
    by (simp add: sample_challenge_def)
  ultimately show ?thesis
    using Verify_error_order [of sample_challenge "''other''" sample_digest "''2''" 1030]
      Verify_error_order [of sample_challenge "''quote''" sample_digest "''2''" 999]
      Verify_error_order [of sample_challenge "''quote''" sample_digest "''2''" 1061]
    by (simp add: sample_challenge_def)
qed

text \<open>
  Claim C6 as stated fails where \<open>now < C.ts\<close> and \<open>now > C.ts + C.expiresIn\<close> hold
  together: \<open>Verify\<close> answers not-yet-valid there, not expired. With \<open>ts = 100\<close>,
  \<open>expiresIn = -50\<close> that is \<open>now = 60\<close>; with \<open>ts = 2^63 - 1\<close>, \<open>expiresIn = 60\<close> the sum
  wraps around and it is \<open>now = 1000\<close>.
\<close>

theorem Verify_expired_counterexample:
  "Resource backdated_challenge = ''quote'' \<and>
   Ts backdated_challenge + ExpiresIn backdated_challenge <s 60 \<and>
   Verify sample_digest backdated_challenge ''2'' ''quote'' 60 = Inl (NotYetValid 100 60) \<and>
   Resource wrapping_challenge = ''quote'' \<and>
   Ts wrapping_challenge + ExpiresIn wrapping_challenge <s 1000 \<and>
   Verify sample_digest wrapping_challenge ''2'' ''quote'' 1000
     = Inl (NotYetValid 9223372036854775807 1000)"
  by (simp add: backdated_challenge_def wrapping_challenge_def sample_challenge_def Verify_def)

section \<open>Properties of the rate limiter\<close>

subsection \<open>AdaptiveDifficulty\<close>

text \<open>
  Claim C3, as amended. \<open>AdaptiveDifficulty(20, attempts)\<close> is 20 for attempts 1 and 2,
  21 for 3 to 5, 22 for 6 to 10, 23 for 11 to 20 and 24 from 21 on. For every \<open>baseBits\<close>
  up to \<open>2^63 - 5\<close> the result is monotone non-decreasing in \<open>attempts\<close> and never exceeds
  \<open>baseBits + 4\<close>; above that \<open>baseBits + 4\<close> wraps around.
\<close>

theorem AdaptiveDifficulty_steps:
  "(1 \<le>s n \<and> n \<le>s 2 \<longrightarrow> AdaptiveDifficulty 20 n = 20) \<and>
   (3 \<le>s n \<and> n \<le>s 5 \<longrightarrow> AdaptiveDifficulty 20 n = 21) \<and>
   (6 \<le>s n \<and> n \<le>s 10 \<longrightarrow> AdaptiveDifficulty 20 n = 22) \<and>
   (11 \<le>s n \<and> n \<le>s 20 \<longrightarrow> AdaptiveDifficulty 20 n = 23) \<and>
   (21 \<le>s n \<longrightarrow> AdaptiveDifficulty 20 n = 24) \<and>
   (baseBits \<le>s 9223372036854775803 \<longrightarrow>
      (n \<le>s m \<longrightarrow> AdaptiveDifficulty baseBits n \<le>s AdaptiveDifficulty baseBits m) \<and>
      AdaptiveDifficulty baseBits n \<le>s baseBits + 4)"
proof -
  have table: "(1 \<le>s n \<and> n \<le>s 2 \<longrightarrow> AdaptiveDifficulty 20 n = 20) \<and>
   (3 \<le>s n \<and> n \<le>s 5 \<longrightarrow> AdaptiveDifficulty 20 n = 21) \<and>
   (6 \<le>s n \<and> n \<le>s 10 \<longrightarrow> AdaptiveDifficulty 20 n = 22) \<and>
   (11 \<le>s n \<and> n \<le>s 20 \<longrightarrow> AdaptiveDifficulty 20 n = 23) \<and>
   (21 \<le>s n \<longrightarrow> AdaptiveDifficulty 20 n = 24)"
    by (auto simp add: AdaptiveDifficulty_def word_sle_eq)
  have general: "(n \<le>s m \<longrightarrow> AdaptiveDifficulty baseBits n \<le>s AdaptiveDifficulty baseBits m) \<and>
      AdaptiveDifficulty baseBits n \<le>s baseBits + 4"
    if "baseBits \<le>s 9223372036854775803"
  proof -
    from that have ub: "sint baseBits \<le> 9223372036854775803"
      by (simp add: word_sle_eq)
    have lb: "- (2 ^ 63) \<le> sint baseBits"
      using sint_ge [of baseBits] by simp
    have s1: "sint (baseBits + 1) = sint baseBits + 1"
      using sint_add_no_overflow [of baseBits 1] ub lb by simp
    have s2: "sint (baseBits + 2) = sint baseBits + 2"
      using sint_add_no_overflow [of baseBits 2] ub lb by simp
    have s3: "sint (baseBits + 3) = sint baseBits + 3"
      using sint_add_no_overflow [of baseBits 3] ub lb by simp
    have s4: "sint (baseBits + 4) = sint baseBits + 4"
      using sint_add_no_overflow [of baseBits 4] ub lb by simp
    show ?thesis
      by (auto simp add: AdaptiveDifficulty_def word_sle_eq s1 s2 s3 s4)
  qed
  from table general show ?thesis
    by blast
qed

theorem AdaptiveDifficulty_steps_witness:
  "AdaptiveDifficulty 20 1 = 20 \<and> AdaptiveDifficulty 20 4 = 21 \<and>
   AdaptiveDifficulty 20 10 = 22 \<and> AdaptiveDifficulty 20 11 = 23 \<and>
   AdaptiveDifficulty 20 1000 = 24 \<and>
   AdaptiveDifficulty 18 2 \<le>s AdaptiveDifficulty 18 7 \<and> AdaptiveDifficulty 18 7 \<le>s 22"
  using AdaptiveDifficulty_steps [where n = 1 and baseBits = 20 and m = 1]
    AdaptiveDifficulty_steps [where n = 4 and baseBits = 20 and m = 4]
    AdaptiveDifficulty_steps [where n = 10 and baseBits = 20 and m = 10]
    AdaptiveDifficulty_steps [where n = 11 and baseBits = 20 and m = 11]
    AdaptiveDifficulty_steps [where n = 1000 and baseBits = 20 and m = 1000]
    AdaptiveDifficulty_steps [where n = 2 and baseBits = 18 and m = 7]
    AdaptiveDifficulty_steps [where n = 7 and baseBits = 18 and m = 7]
  by (simp add: word_sle_eq)

text \<open>
  Claim C3 as stated fails for the largest \<open>baseBits\<close>: from 2 to 3 attempts the result
  drops from \<open>2^63 - 1\<close> to \<open>-2^63\<close>, and the result for 2 attempts exceeds
  \<open>baseBits + 4\<close>, which has wrapped around.
\<close>

theorem AdaptiveDifficulty_wrap_counterexample:
  "(2 :: go_int) \<le>s 3 \<and>
   \<not> AdaptiveDifficulty 9223372036854775807 2 \<le>s AdaptiveDifficulty 9223372036854775807 3 \<and>
   \<not> AdaptiveDifficulty 9223372036854775807 2 \<le>s 9223372036854775807 + 4"
  by (simp add: AdaptiveDifficulty_def)

subsection \<open>Allow and Reset\<close>

text \<open>
  Claim C8. In every limiter state \<open>Allow(nil)\<close> returns \<open>(true, 0)\<close> and \<open>Reset(nil)\<close>
  returns, both leaving the limiter, and so the bucket table, as it was.
\<close>

theorem Allow_nil: "Allow String l now None = ((True, 0), l) \<and> Reset String l None = l"
  by (simp add: Allow_def Reset_def)

lemma Sub_same: "Sub now now = 0"
  by (simp add: Sub_def)

lemma Seconds_0: "Seconds 0 = 0"
  by (simp add: Seconds_def)

lemma sample_String_loopback: "sample_String [127, 0, 0, 1] = ''7f000001''"
  by (simp add: sample_String_def hex_EncodeToString_def)



lemma float64_ge_1: "1 \<le>s c \<Longrightarrow> 1 \<le> float64 c"
  by (simp only: float64_def word_sle_eq of_int_1_le_iff) simp

text \<open>
  Claim C7. In every limiter state with \<open>capacity >= 1\<close> and for every non-nil address,
  \<open>Reset\<close> deletes the bucket of the address, and the next \<open>Allow\<close> for it makes a new
  bucket with full tokens, takes one and returns \<open>(true, 1)\<close>: the same answer and the
  same bucket as from a limiter that has never seen the address.
\<close>

theorem Reset_then_Allow:
  assumes "1 \<le>s capacity l"
  shows "buckets (Reset String l (Some a)) (String a) = None \<and>
    Allow String (Reset String l (Some a)) now (Some a) =
      ((True, 1),
       l\<lparr>buckets := (buckets l)(String a \<mapsto>
            \<lparr>tokens = float64 (capacity l) - 1, lastCheck = now, attempts = 1\<rparr>)\<rparr>) \<and>
    fst (Allow String (Reset String l (Some a)) now (Some a)) =
      fst (Allow String (NewLimiter (rate l) (capacity l)) now (Some a)) \<and>
    buckets (snd (Allow String (Reset String l (Some a)) now (Some a))) (String a) =
      buckets (snd (Allow String (NewLimiter (rate l) (capacity l)) now (Some a))) (String a)"
  using float64_ge_1 [OF assms]
  by (simp add: Reset_def Allow_def NewLimiter_def Sub_same Seconds_0 Let_def)

theorem Reset_then_Allow_witness:
  "1 \<le>s capacity drained_limiter \<and>
   fst (Allow sample_String (Reset sample_String drained_limiter (Some [127, 0, 0, 1])) 50000000
     (Some [127, 0, 0, 1])) = (True, 1) \<and>
   buckets (Reset sample_String drained_limiter (Some [127, 0, 0, 1])) ''7f000001'' = None"
proof -
  have cap: "1 \<le>s capacity drained_limiter"
    by (simp add: drained_limiter_def NewLimiter_def word_sle_eq)
  note key = sample_String_loopback
  from cap Reset_then_Allow [OF cap, of sample_String "[127, 0, 0, 1]" 50000000] show ?thesis
    by (simp add: key)
qed

subsection \<open>The token count stays between 0 and the capacity\<close>















section \<open>Properties of the connection handler\<close>

lemma LeadingZeroBits_128: "LeadingZeroBits [128] = 0"
  by code_simp

lemma rate_check_busy:
  "rate_check sample_String (Some busy_limiter) sample_env =
     (True, 7, Some (busy_limiter\<lparr>buckets :=
        [''7f000001'' \<mapsto> \<lparr>tokens = 4, lastCheck = 0, attempts = 7\<rparr>]\<rparr>))"
  by (simp add: rate_check_def sample_env_def Allow_def busy_limiter_def NewLimiter_def
      sample_String_loopback Sub_def Seconds_def float64_def Let_def)

text \<open>
  Claim C2, as amended. The handler sends a challenge exactly when the rate check
  allows the connection, the deadline is set and a salt is drawn. Its difficulty is
  \<open>AdaptiveDifficulty(baseBits, attempts)\<close> when adaptive difficulty is enabled and
  \<open>attempts > 0\<close>, and \<open>baseBits\<close> otherwise, where \<open>attempts\<close> is the count the rate check
  returns. \<open>AdaptiveDifficulty(baseBits, k)\<close> is itself \<open>baseBits\<close> plus the extra bits
  of the table, so \<open>baseBits\<close> is not added a second time.
\<close>

theorem challenge_bits:
  "sent_bits (fst (handleConnection H String cfg limiter env)) =
     (case rate_check String limiter env of
        (allowed, n, limiter') \<Rightarrow>
          if allowed \<and> SetDeadline_ok env \<and> rand_Read env 16 \<noteq> None
          then [if AdaptiveBits cfg \<and> 0 <s n then AdaptiveDifficulty (Bits_cfg cfg) n
                else Bits_cfg cfg]
          else []) \<and>
   AdaptiveDifficulty (Bits_cfg cfg) k = Bits_cfg cfg + extra_bits k"
proof
  show "AdaptiveDifficulty (Bits_cfg cfg) k = Bits_cfg cfg + extra_bits k"
    by (simp add: AdaptiveDifficulty_def extra_bits_def)
  obtain allowed n limiter' where rc: "rate_check String limiter env = (allowed, n, limiter')"
    by (cases "rate_check String limiter env") auto
  show "sent_bits (fst (handleConnection H String cfg limiter env)) =
     (case rate_check String limiter env of
        (allowed, n, limiter') \<Rightarrow>
          if allowed \<and> SetDeadline_ok env \<and> rand_Read env 16 \<noteq> None
          then [if AdaptiveBits cfg \<and> 0 <s n then AdaptiveDifficulty (Bits_cfg cfg) n
                else Bits_cfg cfg]
          else [])"
    unfolding rc handleConnection_def
    by (auto simp add: Generate_def generateSalt_def Let_def split: option.splits sum.splits)
qed

theorem challenge_bits_witness:
  "sent_bits (fst (handleConnection sample_digest sample_String sample_cfg (Some busy_limiter)
     sample_env)) = [22]"
  using challenge_bits [of sample_digest sample_String sample_cfg "Some busy_limiter" sample_env 7]
  by (simp add: rate_check_busy) (simp add: sample_env_def sample_cfg_def AdaptiveDifficulty_def word_sless_alt word_sle_eq)

text \<open>
  Claim C2 as stated fails on a connection from an address with 6 earlier attempts and
  \<open>baseBits = 20\<close>: the rate check returns 7 attempts and the challenge asks for 22 bits,
  not for \<open>20 + AdaptiveDifficulty(20, 7) = 42\<close>.
\<close>

theorem challenge_bits_counterexample:
  "AdaptiveBits sample_cfg \<and>
   fst (snd (rate_check sample_String (Some busy_limiter) sample_env)) = 7 \<and>
   sent_bits (fst (handleConnection sample_digest sample_String sample_cfg (Some busy_limiter)
     sample_env)) = [22] \<and>
   Bits_cfg sample_cfg + AdaptiveDifficulty (Bits_cfg sample_cfg) 7 = 42"
  by (simp add: rate_check_busy handleConnection_def)
    (simp add: sample_env_def sample_cfg_def AdaptiveDifficulty_def Generate_def generateSalt_def
      Verify_def sample_digest_def LeadingZeroBits_128 Let_def word_sless_alt word_sle_eq)

lemma Verify_from_Generate:
  assumes "Generate rand t bits ex ''quote'' = Some c"
    and "Verify H c nonce ''quote'' now = Inl e"
  shows "\<not> is_mismatch e \<and> (is_temporal e \<or> is_insufficient e)"
proof -
  from assms(1) have "Resource c = ''quote''"
    by (auto simp add: Generate_def split: option.splits)
  with assms(2) show ?thesis
    by (auto simp add: Verify_def Let_def split: if_splits)
qed

text \<open>
  Claim C10. The handler passes \<open>"quote"\<close> both to \<open>Generate\<close> and to \<open>Verify\<close>. So every
  verification error it reports is a temporal or an insufficient-work error, never a
  resource mismatch; and so is every error of \<open>Verify\<close> against \<open>"quote"\<close> for a challenge
  that \<open>Generate\<close> made for \<open>"quote"\<close>.
\<close>

theorem no_resource_mismatch:
  "(\<forall>e\<in>set (sent_verify_errors (fst (handleConnection H String cfg limiter env))).
      \<not> is_mismatch e \<and> (is_temporal e \<or> is_insufficient e)) \<and>
   (Generate rand t bits ex ''quote'' = Some c \<and> Verify H c nonce ''quote'' now = Inl e' \<longrightarrow>
      \<not> is_mismatch e' \<and> (is_temporal e' \<or> is_insufficient e'))"
proof (intro conjI ballI impI)
  fix e
  assume "e \<in> set (sent_verify_errors (fst (handleConnection H String cfg limiter env)))"
  then have "\<exists>rand t bits ex c nonce now.
      Generate rand t bits ex ''quote'' = Some c \<and> Verify H c nonce ''quote'' now = Inl e"
    unfolding handleConnection_def
    by (auto simp add: Let_def split: prod.splits option.splits sum.splits if_splits) blast+
  then show "\<not> is_mismatch e" and "is_temporal e \<or> is_insufficient e"
    using Verify_from_Generate by blast+
next
  assume "Generate rand t bits ex ''quote'' = Some c \<and> Verify H c nonce ''quote'' now = Inl e'"
  then show "\<not> is_mismatch e'" and "is_temporal e' \<or> is_insufficient e'"
    using Verify_from_Generate by blast+
qed

theorem no_resource_mismatch_witness:
  "sent_verify_errors (fst (handleConnection sample_digest sample_String sample_cfg
     (Some busy_limiter) sample_env)) = [InsufficientPoW 22 0] \<and>
   is_insufficient (InsufficientPoW 22 0) \<and> \<not> is_mismatch (InsufficientPoW 22 0)"
proof -
  have run: "sent_verify_errors (fst (handleConnection sample_digest sample_String sample_cfg
     (Some busy_limiter) sample_env)) = [InsufficientPoW 22 0]"
    by (simp add: rate_check_busy handleConnection_def)
      (simp add: sample_env_def sample_cfg_def AdaptiveDifficulty_def Generate_def generateSalt_def
        Verify_def sample_digest_def LeadingZeroBits_128 Let_def word_sless_alt word_sle_eq)
  with no_resource_mismatch [of sample_digest sample_String sample_cfg "Some busy_limiter" sample_env]
  show ?thesis
    by simp
qed

end
